theory Spec2Isabelle
  imports Complex_Main
begin

section \<open>JavaScript numbers\<close>

text \<open>
  A JavaScript Number is an IEEE 754 binary64 value: a NaN, one of the two infinities, the
  negative zero, or a finite value, which is carried as the real number it is (\<open>Fin 0\<close> is
  the positive zero). An arithmetic operation is the exact operation on the reals followed
  by rounding to the nearest binary64 value, ties to the even significand, overflowing to an
  infinity and underflowing through the subnormal range to a zero of the right sign.
\<close>

datatype number = NaN | PInf | NInf | NZero | Fin real

subsection \<open>Rounding to binary64\<close>

text \<open>
  The binary exponent of a positive real, found by halving or doubling and kept between
  \<open>- 1022\<close> (the exponent of the subnormal range) and \<open>1024\<close> (where every value overflows).
\<close>

fun expo_up :: "nat \<Rightarrow> real \<Rightarrow> int" where
  "expo_up n a = (if a < 2 \<or> n = 0 then 0 else expo_up (n - 1) (a / 2) + 1)"

fun expo_down :: "nat \<Rightarrow> real \<Rightarrow> int" where
  "expo_down n a = (if 1 \<le> a \<or> n = 0 then 0 else expo_down (n - 1) (2 * a) - 1)"

declare expo_up.simps [simp del]
declare expo_down.simps [simp del]

definition exponent :: "real \<Rightarrow> int" where
  "exponent a = (if 1 \<le> a then expo_up 1024 a else expo_down 1022 a)"

definition pow2 :: "int \<Rightarrow> real" where
  "pow2 k = (if 0 \<le> k then 2 ^ nat k else 1 / 2 ^ nat (- k))"

definition round_half_even :: "real \<Rightarrow> int" where
  "round_half_even r =
     (if r - of_int \<lfloor>r\<rfloor> < 1 / 2 then \<lfloor>r\<rfloor>
      else if 1 / 2 < r - of_int \<lfloor>r\<rfloor> then \<lfloor>r\<rfloor> + 1
      else if even \<lfloor>r\<rfloor> then \<lfloor>r\<rfloor> else \<lfloor>r\<rfloor> + 1)"

text \<open>The multiple of the quantum \<open>q\<close> nearest to \<open>a\<close>.\<close>

definition quantize :: "real \<Rightarrow> real \<Rightarrow> real" where
  "quantize q a = of_int (round_half_even (a / q)) * q"

text \<open>A rounded magnitude with its sign: an infinity from \<open>2 ^ 1024\<close> on, a signed zero at 0.\<close>

definition pack :: "bool \<Rightarrow> real \<Rightarrow> number" where
  "pack neg y =
     (if 2 ^ 1024 \<le> y then (if neg then NInf else PInf)
      else if y = 0 then (if neg then NZero else Fin 0)
      else Fin (if neg then - y else y))"

text \<open>
  A significand has 53 bits, so the quantum of a value with exponent \<open>e\<close> is \<open>2 ^ (e - 52)\<close>.
  The exact zero is rounded to the positive zero; where an operation yields a negative
  zero it says so itself.
\<close>

definition rnd :: "real \<Rightarrow> number" where
  "rnd x =
     (if x = 0 then Fin 0
      else pack (x < 0) (quantize (pow2 (exponent \<bar>x\<bar> - 52)) \<bar>x\<bar>))"

subsection \<open>Operators\<close>

fun value_of :: "number \<Rightarrow> real" where
  "value_of (Fin a) = a"
| "value_of _ = 0"

text \<open>The sign bit.\<close>

fun negative :: "number \<Rightarrow> bool" where
  "negative NInf = True"
| "negative NZero = True"
| "negative (Fin a) = (a < 0)"
| "negative _ = False"

fun is_zero :: "number \<Rightarrow> bool" where
  "is_zero NZero = True"
| "is_zero (Fin a) = (a = 0)"
| "is_zero _ = False"

definition signed_zero :: "bool \<Rightarrow> number" where
  "signed_zero neg = (if neg then NZero else Fin 0)"

definition signed_infinity :: "bool \<Rightarrow> number" where
  "signed_infinity neg = (if neg then NInf else PInf)"

fun js_neg :: "number \<Rightarrow> number" where
  "js_neg NaN = NaN"
| "js_neg PInf = NInf"
| "js_neg NInf = PInf"
| "js_neg NZero = Fin 0"
| "js_neg (Fin a) = (if a = 0 then NZero else Fin (- a))"

text \<open>
  An exact sum of zero is the positive zero, unless both operands are negative zeros.
\<close>

fun js_add :: "number \<Rightarrow> number \<Rightarrow> number" where
  "js_add NaN _ = NaN"
| "js_add _ NaN = NaN"
| "js_add PInf NInf = NaN"
| "js_add NInf PInf = NaN"
| "js_add PInf _ = PInf"
| "js_add _ PInf = PInf"
| "js_add NInf _ = NInf"
| "js_add _ NInf = NInf"
| "js_add x y =
     (if value_of x + value_of y = 0 then signed_zero (negative x \<and> negative y)
      else rnd (value_of x + value_of y))"

definition js_sub :: "number \<Rightarrow> number \<Rightarrow> number" where
  "js_sub a b = js_add a (js_neg b)"

text \<open>The sign of a product or a quotient is the exclusive or of the signs.\<close>

fun js_mul :: "number \<Rightarrow> number \<Rightarrow> number" where
  "js_mul NaN _ = NaN"
| "js_mul _ NaN = NaN"
| "js_mul PInf y = (if is_zero y then NaN else signed_infinity (negative y))"
| "js_mul NInf y = (if is_zero y then NaN else signed_infinity (\<not> negative y))"
| "js_mul x PInf = (if is_zero x then NaN else signed_infinity (negative x))"
| "js_mul x NInf = (if is_zero x then NaN else signed_infinity (\<not> negative x))"
| "js_mul x y =
     (if value_of x * value_of y = 0 then signed_zero (negative x \<noteq> negative y)
      else rnd (value_of x * value_of y))"

fun js_div :: "number \<Rightarrow> number \<Rightarrow> number" where
  "js_div NaN _ = NaN"
| "js_div _ NaN = NaN"
| "js_div PInf y = (if y = PInf \<or> y = NInf then NaN else signed_infinity (negative y))"
| "js_div NInf y = (if y = PInf \<or> y = NInf then NaN else signed_infinity (\<not> negative y))"
| "js_div x PInf = signed_zero (negative x)"
| "js_div x NInf = signed_zero (\<not> negative x)"
| "js_div x y =
     (if is_zero y then (if is_zero x then NaN else signed_infinity (negative x \<noteq> negative y))
      else if is_zero x then signed_zero (negative x \<noteq> negative y)
      else rnd (value_of x / value_of y))"

text \<open>
  The relational operators \<open><\<close> and \<open>>\<close>: false as soon as an operand is NaN, and the two
  zeros are equal.
\<close>

fun js_lt :: "number \<Rightarrow> number \<Rightarrow> bool" where
  "js_lt (Fin a) (Fin b) = (a < b)"
| "js_lt NaN _ = False"
| "js_lt _ NaN = False"
| "js_lt PInf _ = False"
| "js_lt _ NInf = False"
| "js_lt NInf _ = True"
| "js_lt _ PInf = True"
| "js_lt x y = (value_of x < value_of y)"

definition js_gt :: "number \<Rightarrow> number \<Rightarrow> bool" where
  "js_gt a b = js_lt b a"

text \<open>
  Equality (\<open>==\<close> and \<open>===\<close> on Numbers): a NaN equals nothing, and the two zeros are equal.
\<close>

definition js_eq :: "number \<Rightarrow> number \<Rightarrow> bool" where
  "js_eq a b = (a \<noteq> NaN \<and> b \<noteq> NaN \<and> (a = b \<or> is_zero a \<and> is_zero b))"

text \<open>\<open>Number.isNaN\<close> and \<open>Number.isFinite\<close>.\<close>

fun isNaN :: "number \<Rightarrow> bool" where
  "isNaN NaN = True"
| "isNaN _ = False"

fun isFinite :: "number \<Rightarrow> bool" where
  "isFinite (Fin a) = True"
| "isFinite NZero = True"
| "isFinite _ = False"

text \<open>
  \<open>Math.round\<close> (ECMAScript 21.3.2.28): the integral Number closest to the argument, and of
  two equally close ones the one closer to \<open>+\<infinity>\<close>; the negative zero for an argument below
  zero and not below \<open>- 0.5\<close>; NaN, the infinities and the zeros are returned as they are.
  The result is exact: a binary64 value of magnitude \<open>2 ^ 52\<close> or more is an integer.
\<close>

fun math_round :: "number \<Rightarrow> number" where
  "math_round (Fin a) = (if a < 0 \<and> - 1 / 2 \<le> a then NZero else Fin (of_int \<lfloor>a + 1 / 2\<rfloor>))"
| "math_round x = x"

text \<open>\<open>Math.sqrt\<close>, correctly rounded: NaN below zero, and the zeros as they are.\<close>

fun math_sqrt :: "number \<Rightarrow> number" where
  "math_sqrt (Fin a) = (if a < 0 then NaN else rnd (sqrt a))"
| "math_sqrt NInf = NaN"
| "math_sqrt x = x"

text \<open>
  \<open>Math.pow\<close> at the exponents the program uses, the natural numbers (the literal 2 and a
  count of decimal places), taken as the correctly rounded power. Any base to the power 0
  is 1, NaN included.
\<close>

definition math_pow :: "number \<Rightarrow> nat \<Rightarrow> number" where
  "math_pow x n =
     (if n = 0 then Fin 1
      else case x of
             NaN \<Rightarrow> NaN
           | PInf \<Rightarrow> PInf
           | NInf \<Rightarrow> (if even n then PInf else NInf)
           | NZero \<Rightarrow> (if even n then Fin 0 else NZero)
           | Fin a \<Rightarrow> rnd (a ^ n))"

section \<open>math.js\<close>

text \<open>
  The only exception the functions below can raise themselves: \<open>Array.prototype.reduce\<close>
  called without an initial value on an empty array throws a TypeError.
\<close>

datatype error = TypeError

text \<open>
  Maximum p-value considered "significant". The two thresholds of \<open>ratePValue\<close> are the
  decimals of the source, 0.05 and 0.01.
\<close>

definition BASE_SIGNIFICANCE :: number where
  "BASE_SIGNIFICANCE = Fin (5 / 100)"

definition ratePValue :: "number \<Rightarrow> string" where
  "ratePValue pValue =
     (if js_gt pValue BASE_SIGNIFICANCE then ''Not significant''
      else if js_gt pValue (Fin (1 / 100)) then ''Significant'' else ''Very significant'')"

text \<open>
  \<open>values.reduce((sum, value) => (sum += value)) / values.length\<close>: the fold starts from the
  first element, and throws on the empty array.
\<close>

definition calculateMean :: "number list \<Rightarrow> error + number" where
  "calculateMean values =
     (case values of
        [] \<Rightarrow> Inl TypeError
      | v # vs \<Rightarrow> Inr (js_div (foldl js_add v vs) (Fin (real (length values)))))"

text \<open>
  The optional parameter \<open>mean = null\<close> is an option: \<open>None\<close> is the omitted (or null)
  argument. The second fold has the initial value 0, so on an empty array with a given mean
  nothing is thrown and the result is \<open>sqrt (0 / 0)\<close>, a NaN.
\<close>

definition calculateStandardDeviation :: "number list \<Rightarrow> number option \<Rightarrow> error + number" where
  "calculateStandardDeviation values mean =
     (case (case mean of Some m \<Rightarrow> Inr m | None \<Rightarrow> calculateMean values) of
        Inl e \<Rightarrow> Inl e
      | Inr mean' \<Rightarrow>
          (let variance =
                 js_div
                   (foldl (\<lambda>sum value. js_add sum (math_pow (js_sub value mean') 2))
                      (Fin 0) values)
                   (Fin (real (length values)))
           in Inr (math_sqrt variance)))"

text \<open>
  \<open>round(value, precision = 2)\<close>; the precision is a number of decimal places, \<open>None\<close> the
  omitted argument.
\<close>

definition round_js :: "number \<Rightarrow> nat option \<Rightarrow> number" where
  "round_js value precision =
     (let power = math_pow (Fin 10) (case precision of None \<Rightarrow> 2 | Some p \<Rightarrow> p)
      in js_div (math_round (js_mul value power)) power)"

section \<open>output.js\<close>

text \<open>
  The module variable \<open>options\<close> is unset until \<open>setOutputOptions\<close> is called (\<open>None\<close>), and
  \<open>verbose\<close> prints when it is unset or its \<open>verbose\<close> field is true. Printing appends a line
  to the standard output, which is passed in and returned.
\<close>

record options =
  opt_verbose :: bool

definition verbose :: "options option \<Rightarrow> string \<Rightarrow> string list \<Rightarrow> string list" where
  "verbose opts msg out =
     (if (case opts of None \<Rightarrow> True | Some opt \<Rightarrow> opt_verbose opt) then out @ [msg]
      else out)"

section \<open>analyseResults\<close>

text \<open>
  The \<open>ttest\<close> package is a dependency and not part of the program: it is a parameter, a
  function from the two sample sets and the alternative to the value of \<open>pValue()\<close>. So is
  the conversion of a Number to a string that template literals apply (\<open>str\<close>).

  \<open>analyseResults\<close> returns nothing; what it does is print and possibly end the process. A
  run records that, with the values of the local variables \<open>direction\<close> and \<open>pValue\<close> and
  the alternative the test was called with (\<open>None\<close> when it was not called).
\<close>

datatype alternative = Less | Greater

record run =
  run_direction :: int
  run_pValue :: number
  run_test :: "alternative option"
  run_stdout :: "string list"
  run_stderr :: "string list"
  run_exit :: "int option"

definition analyseResults ::
  "(number list \<Rightarrow> number list \<Rightarrow> alternative \<Rightarrow> number) \<Rightarrow> (number \<Rightarrow> string) \<Rightarrow>
   options option \<Rightarrow> number list \<Rightarrow> number list \<Rightarrow> error + run" where
  "analyseResults ttest str opts oldSet newSet =
     (case calculateMean oldSet of
        Inl e \<Rightarrow> Inl e
      | Inr oldMean \<Rightarrow>
     (case calculateMean newSet of
        Inl e \<Rightarrow> Inl e
      | Inr newMean \<Rightarrow>
     (let (test, pValue, direction) =
            (if js_lt oldMean newMean then (Some Less, ttest oldSet newSet Less, - 1)
             else if js_gt oldMean newMean then (Some Greater, ttest oldSet newSet Greater, 1)
             else (None, Fin 0, 0::int));
          directionText = (if direction = 1 then ''FASTER'' else ''SLOWER'')
      in
        if isNaN pValue then
          Inr \<lparr>run_direction = direction, run_pValue = pValue, run_test = test,
               run_stdout = [], run_stderr = [''Error: p-value is NaN.''],
               run_exit = Some (- 1)\<rparr>
        else
          (let out1 =
                 (if direction \<noteq> 0 then
                    verbose opts
                      (''Statistical significance: '' @ ratePValue pValue @ '' (p-value = '' @
                         str pValue @ '').'' @ [CHR 0x0A])
                      (verbose opts
                         (''Active hypothesis: new version is '' @ directionText @
                            '' than old version.'') [])
                  else []);
               out2 =
                 (if direction = 0 then
                    [''There appears to be no significant difference between both versions.'']
                  else if js_gt pValue BASE_SIGNIFICANCE then
                    [''There appears to be no significant difference between both versions.'',
                     ''If you are seeing a high degree of variability in your results, consider'',
                     ''taking more samples or increasing system stability.'']
                  else
                    [''The new version appears to be '' @ directionText @
                       '' than the old version.'',
                     (if direction = 1 then
                        ''The new version appears to be '' @
                          str (round_js
                                 (js_mul (js_sub (Fin 1) (js_div newMean oldMean)) (Fin 100))
                                 None) @
                          ''% faster '' @ ''(takes '' @
                          str (round_js (js_mul (js_div newMean oldMean) (Fin 100)) None) @
                          ''% of the time of the old version).''
                      else
                        ''The new version appears to be '' @
                          str (round_js
                                 (js_mul (js_sub (js_div newMean oldMean) (Fin 1)) (Fin 100))
                                 None) @
                          ''% slower '' @ ''(takes '' @
                          str (round_js (js_mul (js_div newMean oldMean) (Fin 100)) None) @
                          ''% of the time of the old version).'')])
           in Inr \<lparr>run_direction = direction, run_pValue = pValue, run_test = test,
                   run_stdout = out1 @ out2, run_stderr = [], run_exit = None\<rparr>))))"

section \<open>The words of the specification\<close>

text \<open>
  The population standard deviation of a sequence of reals as the specification words it:
  the square root of the sum of the squared distances to the mean, divided by the length.
  It is compared with \<open>calculateStandardDeviation\<close> below.
\<close>

definition population_sd :: "real list \<Rightarrow> real" where
  "population_sd v =
     sqrt ((\<Sum>x\<leftarrow>v. (x - sum_list v / real (length v))\<^sup>2) / real (length v))"

text \<open>
  Rounding to \<open>p\<close> decimal digits as the specification words it: scale by \<open>10 ^ p\<close>, take the
  nearest integer with an exact half going away from zero, scale back. It is compared with
  \<open>round_js\<close> below.
\<close>

definition round_half_away_from_zero :: "real \<Rightarrow> nat \<Rightarrow> real" where
  "round_half_away_from_zero x p = sgn x * of_int \<lfloor>\<bar>x\<bar> * 10 ^ p + 1 / 2\<rfloor> / 10 ^ p"

section \<open>Evaluation\<close>

text \<open>
  The equations that compute a rounding at a given real; the two exponent searches are
  unfolded only here, on closed terms.
\<close>

lemmas rnd_eval =
  rnd_def pack_def quantize_def exponent_def pow2_def round_half_even_def
  expo_up.simps expo_down.simps signed_zero_def signed_infinity_def

section \<open>Numbers that are not NaN\<close>

lemma rnd_not_NaN: "rnd x \<noteq> NaN"
  by (simp add: rnd_def pack_def)

lemma js_add_not_NaN: "a \<noteq> NaN \<Longrightarrow> isFinite b \<Longrightarrow> js_add a b \<noteq> NaN"
  by (cases a; cases b) (simp_all add: signed_zero_def rnd_not_NaN)

lemma foldl_js_add_not_NaN:
  "a \<noteq> NaN \<Longrightarrow> \<forall>x\<in>set xs. isFinite x \<Longrightarrow> foldl js_add a xs \<noteq> NaN"
  by (induction xs arbitrary: a) (simp_all add: js_add_not_NaN)

lemma js_div_length_not_NaN: "a \<noteq> NaN \<Longrightarrow> 0 < n \<Longrightarrow> js_div a (Fin n) \<noteq> NaN"
  by (cases a) (simp_all add: signed_zero_def signed_infinity_def rnd_not_NaN)

lemma calculateMean_finite:
  assumes "values \<noteq> []" and "\<forall>x\<in>set values. isFinite x"
  shows "\<exists>m. calculateMean values = Inr m \<and> m \<noteq> NaN"
proof -
  obtain v vs where v: "values = v # vs" using assms(1) by (cases "values") auto
  with assms(2) have "isFinite v" and vs: "\<forall>x\<in>set vs. isFinite x" by simp_all
  then have "v \<noteq> NaN" by auto
  then have "foldl js_add v vs \<noteq> NaN" using vs by (rule foldl_js_add_not_NaN)
  then have "js_div (foldl js_add v vs) (Fin (real (length values))) \<noteq> NaN"
    by (rule js_div_length_not_NaN) (simp add: v)
  then show ?thesis by (simp add: calculateMean_def v)
qed

lemma js_eq_iff_neither_less:
  "a \<noteq> NaN \<Longrightarrow> b \<noteq> NaN \<Longrightarrow> js_eq a b \<longleftrightarrow> \<not> js_lt a b \<and> \<not> js_gt a b"
  by (cases a; cases b) (auto simp add: js_eq_def js_gt_def)

lemma analyseResults_verdict:
  assumes "calculateMean oldSet = Inr oldMean" and "calculateMean newSet = Inr newMean"
  shows "\<exists>r. analyseResults ttest str opts oldSet newSet = Inr r
     \<and> run_direction r =
         (if js_lt oldMean newMean then - 1 else if js_gt oldMean newMean then 1 else 0)
     \<and> run_test r =
         (if js_lt oldMean newMean then Some Less
          else if js_gt oldMean newMean then Some Greater else None)
     \<and> run_pValue r =
         (if js_lt oldMean newMean then ttest oldSet newSet Less
          else if js_gt oldMean newMean then ttest oldSet newSet Greater
          else Fin 0)"
  using assms by (simp add: analyseResults_def Let_def)

lemma analyseResults_abort:
  assumes "calculateMean oldSet = Inr oldMean" and "calculateMean newSet = Inr newMean"
  shows "\<exists>r. analyseResults ttest str opts oldSet newSet = Inr r
     \<and> (if isNaN (run_pValue r)
         then run_exit r = Some (- 1) \<and> run_stderr r = [''Error: p-value is NaN.'']
              \<and> run_stdout r = []
         else run_exit r = None \<and> run_stderr r = [])"
  using assms by (simp add: analyseResults_def Let_def)

lemma calculateMean_nonempty: "values \<noteq> [] \<Longrightarrow> \<exists>m. calculateMean values = Inr m"
  by (cases "values") (simp_all add: calculateMean_def)

lemma js_lt_not_gt: "js_lt a b \<Longrightarrow> \<not> js_gt a b"
  by (cases a; cases b) (auto simp add: js_gt_def)

section \<open>Rating\<close>


section \<open>Standard deviation\<close>

lemma sqrt_2_112: "sqrt (1 / 2 ^ 112) = 1 / 2 ^ 56"
  by (rule real_sqrt_unique) (simp_all add: power_divide)

text \<open>
  Claim C7, as stated, fails: the value returned is computed in binary64 arithmetic and is
  not always the population standard deviation of the samples. On three samples equal to
  the literal \<open>0.1\<close> the sum is rounded, so the mean returned is not the sample, each
  distance is \<open>2 ^ - 56\<close>, and the result is \<open>2 ^ - 56\<close> (about \<open>1.39e-17\<close>) where the
  population standard deviation of three equal values is 0.
\<close>

theorem calculateStandardDeviation_rounded:
  "calculateStandardDeviation [rnd (1 / 10), rnd (1 / 10), rnd (1 / 10)] None
     = Inr (Fin (1 / 2 ^ 56))
   \<and> rnd (1 / 10) = Fin (3602879701896397 / 2 ^ 55)
   \<and> population_sd [3602879701896397 / 2 ^ 55, 3602879701896397 / 2 ^ 55,
        3602879701896397 / 2 ^ 55] = 0"
proof (intro conjI)
  have d: "rnd (1 / 10) = Fin (3602879701896397 / 2 ^ 55)"
    by (simp add: rnd_eval)
  then show "rnd (1 / 10) = Fin (3602879701896397 / 2 ^ 55)" .
  have m: "calculateMean [Fin (3602879701896397 / 2 ^ 55), Fin (3602879701896397 / 2 ^ 55),
        Fin (3602879701896397 / 2 ^ 55)] = Inr (Fin (7205759403792795 / 2 ^ 56))"
    by (simp add: calculateMean_def rnd_eval)
  have sq: "math_pow (js_sub (Fin (3602879701896397 / 2 ^ 55)) (Fin (7205759403792795 / 2 ^ 56))) 2
      = Fin (1 / 2 ^ 112)"
    by (simp add: math_pow_def power2_eq_square js_sub_def rnd_eval)
  have s1: "js_add (Fin 0) (Fin (1 / 2 ^ 112)) = Fin (1 / 2 ^ 112)"
    by (simp add: rnd_eval)
  have s2: "js_add (Fin (1 / 2 ^ 112)) (Fin (1 / 2 ^ 112)) = Fin (2 / 2 ^ 112)"
    by (simp add: rnd_eval)
  have s3: "js_add (Fin (2 / 2 ^ 112)) (Fin (1 / 2 ^ 112)) = Fin (3 / 2 ^ 112)"
    by (simp add: rnd_eval)
  have v: "js_div (Fin (3 / 2 ^ 112)) (Fin 3) = Fin (1 / 2 ^ 112)"
    by (simp add: rnd_eval)
  have len: "real (length [x, y, z]) = 3" for x y z :: number
    by simp
  have r: "math_sqrt (Fin (1 / 2 ^ 112)) = Fin (1 / 2 ^ 56)"
    by (simp only: math_sqrt.simps sqrt_2_112) (simp add: rnd_eval)
  show "calculateStandardDeviation [rnd (1 / 10), rnd (1 / 10), rnd (1 / 10)] None
     = Inr (Fin (1 / 2 ^ 56))"
    by (simp only: calculateStandardDeviation_def d option.case m sum.case Let_def foldl.simps
        sq s1 s2 s3 len v r)
  show "population_sd [3602879701896397 / 2 ^ 55, 3602879701896397 / 2 ^ 55,
        3602879701896397 / 2 ^ 55] = 0"
    by (simp add: population_sd_def)
qed

text \<open>
  Claim C7, amended. On a non-empty array \<open>calculateMean\<close> returns a mean, and the
  one-argument \<open>calculateStandardDeviation\<close> returns the square root of the sum of the
  squared distances to that mean divided by the length of the array (not by the length less
  one), every operation being the binary64 one; passing that mean as the second argument
  gives the same value.
\<close>

theorem calculateStandardDeviation_population:
  assumes "values \<noteq> []"
  shows "\<exists>m. calculateMean values = Inr m
     \<and> calculateStandardDeviation values None
         = Inr (math_sqrt
             (js_div
                (foldl (\<lambda>sum value. js_add sum (math_pow (js_sub value m) 2)) (Fin 0) values)
                (Fin (real (length values)))))
     \<and> calculateStandardDeviation values (Some m) = calculateStandardDeviation values None"
proof -
  obtain m where "calculateMean values = Inr m"
    using calculateMean_nonempty [OF assms] by blast
  then show ?thesis by (simp add: calculateStandardDeviation_def)
qed

theorem calculateStandardDeviation_population_witness:
  "calculateStandardDeviation [Fin 1, Fin 3] None = Inr (Fin 1)
   \<and> calculateStandardDeviation [Fin 1, Fin 3] (Some (Fin 2)) = Inr (Fin 1)
   \<and> population_sd [1, 3] = 1"
  using calculateStandardDeviation_population [of "[Fin 1, Fin 3]"]
  by (simp add: calculateMean_def calculateStandardDeviation_def population_sd_def math_pow_def
      js_sub_def rnd_eval)

section \<open>Rounding\<close>

lemma round_js_default: "round_js v None = round_js v (Some 2)"
  by (simp add: round_js_def)

lemma math_round_nearest:
  "\<exists>n::int. y - 1 / 2 < of_int n \<and> of_int n \<le> y + 1 / 2
     \<and> math_round (Fin y) = (if n = 0 \<and> y < 0 then NZero else Fin (of_int n))"
proof -
  have "y - 1 / 2 < of_int \<lfloor>y + 1 / 2\<rfloor>" and "of_int \<lfloor>y + 1 / 2\<rfloor> \<le> y + 1 / 2"
    by linarith+
  moreover have "(y < 0 \<and> - 1 / 2 \<le> y) \<longleftrightarrow> (\<lfloor>y + 1 / 2\<rfloor> = 0 \<and> y < 0)"
    by (auto simp add: floor_eq_iff)
  then have "math_round (Fin y)
      = (if \<lfloor>y + 1 / 2\<rfloor> = 0 \<and> y < 0 then NZero else Fin (of_int \<lfloor>y + 1 / 2\<rfloor>))"
    by simp
  ultimately show ?thesis by blast
qed





text \<open>
  Claim C8, as stated, fails: an exact half below zero does not go away from zero. At
  \<open>- 0.125\<close> with the default precision the scaled value is \<open>- 12.5\<close>, which \<open>Math.round\<close>
  takes to \<open>- 12\<close>, so \<open>round\<close> returns the Number \<open>- 0.12\<close> where rounding half away from
  zero gives \<open>- 0.13\<close>.
\<close>

theorem round_js_negative_tie:
  "round_js (Fin (- 1 / 8)) None = Fin (- 1080863910568919 / 2 ^ 53)
   \<and> rnd (- 12 / 100) = Fin (- 1080863910568919 / 2 ^ 53)
   \<and> round_half_away_from_zero (- 1 / 8) 2 = - 13 / 100
   \<and> rnd (- 13 / 100) = Fin (- 1170935903116329 / 2 ^ 53)"
  by (simp add: round_js_def math_pow_def round_half_away_from_zero_def rnd_eval)

text \<open>
  Claim C8, amended. For every Number \<open>x\<close> and precision \<open>p\<close>, \<open>round\<close> is the binary64
  quotient by \<open>10 ^ p\<close> of \<open>Math.round\<close> of the binary64 product of \<open>x\<close> and \<open>10 ^ p\<close>; the
  omitted precision is 2; and where that product is a finite \<open>y\<close>, \<open>Math.round\<close> of it is
  the integer nearest to \<open>y\<close>, an exact half going up (towards plus infinity), the zero below
  zero being the negative zero. The product is itself rounded: at the literal \<open>0.615\<close> it is
  \<open>61.5\<close>, and \<open>round\<close> returns \<open>0.62\<close>.
\<close>

theorem round_js_half_up:
  "round_js x (Some p)
     = js_div (math_round (js_mul x (math_pow (Fin 10) p))) (math_pow (Fin 10) p)
   \<and> round_js x None = round_js x (Some 2)
   \<and> (\<forall>y. js_mul x (math_pow (Fin 10) p) = Fin y \<longrightarrow>
        (\<exists>n::int. y - 1 / 2 < of_int n \<and> of_int n \<le> y + 1 / 2
           \<and> math_round (js_mul x (math_pow (Fin 10) p))
               = (if n = 0 \<and> y < 0 then NZero else Fin (of_int n))))"
  using math_round_nearest by (simp add: round_js_def Let_def)

theorem round_js_half_up_witness:
  "js_mul (rnd (615 / 1000)) (math_pow (Fin 10) 2) = Fin (123 / 2)
   \<and> math_round (Fin (123 / 2)) = Fin 62
   \<and> round_js (rnd (615 / 1000)) (Some 2) = Fin (5584463537939415 / 2 ^ 53)
   \<and> rnd (62 / 100) = Fin (5584463537939415 / 2 ^ 53)"
  using round_js_half_up [of "rnd (615 / 1000)" 2]
  by (simp add: round_js_def math_pow_def rnd_eval)




section \<open>The analysis of two sample sets\<close>

text \<open>
  Claim C1, as stated, fails in its last sentence: the direction is NONE for two means
  that are the two zeros, which are equal and not bit-identical. On \<open>[0]\<close> against
  \<open>[-0]\<close> the means are \<open>0\<close> and \<open>-0\<close> and the direction is 0.
\<close>

theorem analyseResults_zeros:
  "analyseResults (\<lambda>a b alt. Fin (1 / 100)) (\<lambda>x. []) None [Fin 0] [NZero]
     = Inr \<lparr>run_direction = 0, run_pValue = Fin 0, run_test = None,
            run_stdout =
              [''There appears to be no significant difference between both versions.''],
            run_stderr = [], run_exit = None\<rparr>
   \<and> calculateMean [Fin 0] = Inr (Fin 0) \<and> calculateMean [NZero] = Inr NZero
   \<and> Fin 0 \<noteq> NZero"
  by (simp add: analyseResults_def calculateMean_def js_gt_def signed_zero_def)

text \<open>
  Claim C1, amended. On two non-empty sets of finite samples \<open>calculateMean\<close> returns two
  means, and the direction follows them: with the old mean below the new one the test is
  called with the alternative "less" and the direction is \<open>- 1\<close> (SLOWER); with the old mean
  above the new one the alternative is "greater" and the direction \<open>1\<close> (FASTER); with
  equal means the direction is \<open>0\<close> (NONE), and it is \<open>0\<close> only when the two means are the
  same value or are both zeros.
\<close>

theorem analyseResults_direction:
  assumes "oldSet \<noteq> []" and "newSet \<noteq> []"
    and "\<forall>x\<in>set oldSet. isFinite x" and "\<forall>x\<in>set newSet. isFinite x"
  shows "\<exists>oldMean newMean r.
       calculateMean oldSet = Inr oldMean \<and> calculateMean newSet = Inr newMean
     \<and> analyseResults ttest str opts oldSet newSet = Inr r
     \<and> (js_lt oldMean newMean \<longrightarrow>
          run_test r = Some Less \<and> run_pValue r = ttest oldSet newSet Less
          \<and> run_direction r = - 1)
     \<and> (js_gt oldMean newMean \<longrightarrow>
          run_test r = Some Greater \<and> run_pValue r = ttest oldSet newSet Greater
          \<and> run_direction r = 1)
     \<and> (js_eq oldMean newMean \<longrightarrow> run_direction r = 0)
     \<and> (run_direction r = 0 \<longrightarrow>
          oldMean = newMean \<or> is_zero oldMean \<and> is_zero newMean)"
proof -
  from calculateMean_finite [OF assms(1,3)]
  obtain oldMean where mo: "calculateMean oldSet = Inr oldMean" "oldMean \<noteq> NaN" by blast
  from calculateMean_finite [OF assms(2,4)]
  obtain newMean where mn: "calculateMean newSet = Inr newMean" "newMean \<noteq> NaN" by blast
  from analyseResults_verdict [OF mo(1) mn(1), of ttest str opts]
  obtain r where r: "analyseResults ttest str opts oldSet newSet = Inr r"
    and d: "run_direction r =
         (if js_lt oldMean newMean then - 1 else if js_gt oldMean newMean then 1 else 0)"
    and t: "run_test r =
         (if js_lt oldMean newMean then Some Less
          else if js_gt oldMean newMean then Some Greater else None)"
    and p: "run_pValue r =
         (if js_lt oldMean newMean then ttest oldSet newSet Less
          else if js_gt oldMean newMean then ttest oldSet newSet Greater
          else Fin 0)"
    by blast
  have eq: "js_eq oldMean newMean \<longleftrightarrow> \<not> js_lt oldMean newMean \<and> \<not> js_gt oldMean newMean"
    using mo(2) mn(2) by (rule js_eq_iff_neither_less)
  have excl: "\<not> (js_lt oldMean newMean \<and> js_gt oldMean newMean)"
    by (cases oldMean; cases newMean) (auto simp add: js_gt_def)
  have "js_lt oldMean newMean \<longrightarrow>
          run_test r = Some Less \<and> run_pValue r = ttest oldSet newSet Less
          \<and> run_direction r = - 1"
    using d t p by simp
  moreover have "js_gt oldMean newMean \<longrightarrow>
          run_test r = Some Greater \<and> run_pValue r = ttest oldSet newSet Greater
          \<and> run_direction r = 1"
    using d t p excl by auto
  moreover have "js_eq oldMean newMean \<longrightarrow> run_direction r = 0"
    using d eq by simp
  moreover have "run_direction r = 0 \<longrightarrow>
          oldMean = newMean \<or> is_zero oldMean \<and> is_zero newMean"
  proof
    assume "run_direction r = 0"
    with d have "\<not> js_lt oldMean newMean \<and> \<not> js_gt oldMean newMean"
      by (simp split: if_splits)
    with eq have "js_eq oldMean newMean" by simp
    then show "oldMean = newMean \<or> is_zero oldMean \<and> is_zero newMean"
      by (simp add: js_eq_def)
  qed
  ultimately show ?thesis using mo(1) mn(1) r by blast
qed

theorem analyseResults_direction_witness:
  "(\<exists>r. analyseResults (\<lambda>a b alt. Fin (3 / 100)) (\<lambda>x. ''n'') None [Fin 1, Fin 2] [Fin 3] = Inr r
        \<and> run_test r = Some Less \<and> run_direction r = - 1)
   \<and> (\<exists>r. analyseResults (\<lambda>a b alt. Fin (3 / 100)) (\<lambda>x. ''n'') None
            [rnd (1 / 10), rnd (2 / 10), rnd (3 / 10)] [rnd (2 / 10), rnd (2 / 10)] = Inr r
        \<and> run_test r = Some Greater \<and> run_direction r = 1)
   \<and> (\<exists>r. analyseResults (\<lambda>a b alt. Fin (3 / 100)) (\<lambda>x. ''n'') None [Fin 1, Fin 3] [Fin 2] = Inr r
        \<and> run_direction r = 0)"
proof (intro conjI)
  show "\<exists>r. analyseResults (\<lambda>a b alt. Fin (3 / 100)) (\<lambda>x. ''n'') None [Fin 1, Fin 2] [Fin 3] = Inr r
        \<and> run_test r = Some Less \<and> run_direction r = - 1"
    using analyseResults_direction [of "[Fin 1, Fin 2]" "[Fin 3]" "\<lambda>a b alt. Fin (3 / 100)"
        "\<lambda>x. ''n''" None]
    by (simp add: calculateMean_def rnd_eval) blast
  show "\<exists>r. analyseResults (\<lambda>a b alt. Fin (3 / 100)) (\<lambda>x. ''n'') None
            [rnd (1 / 10), rnd (2 / 10), rnd (3 / 10)] [rnd (2 / 10), rnd (2 / 10)] = Inr r
        \<and> run_test r = Some Greater \<and> run_direction r = 1"
    using analyseResults_direction [of "[rnd (1 / 10), rnd (2 / 10), rnd (3 / 10)]"
        "[rnd (2 / 10), rnd (2 / 10)]" "\<lambda>a b alt. Fin (3 / 100)" "\<lambda>x. ''n''" None]
    by (simp add: calculateMean_def rnd_eval js_gt_def) blast
  show "\<exists>r. analyseResults (\<lambda>a b alt. Fin (3 / 100)) (\<lambda>x. ''n'') None [Fin 1, Fin 3] [Fin 2] = Inr r
        \<and> run_direction r = 0"
    using analyseResults_direction [of "[Fin 1, Fin 3]" "[Fin 2]" "\<lambda>a b alt. Fin (3 / 100)"
        "\<lambda>x. ''n''" None]
    by (simp add: calculateMean_def rnd_eval js_eq_def) blast
qed

text \<open>
  Claim C2. The p-value of the test is a NaN or a probability. On two non-empty sample
  sets, whenever the p-value is not a finite number the run prints "Error: p-value is NaN."
  on the standard error, exits with the status \<open>- 1\<close> (not zero) and prints no report line;
  a finite p-value does not end the run. In particular on \<open>[100, 100, 100, 100, 100]\<close>
  against \<open>[80, 80, 80, 80, 80]\<close> the test is called with the alternative "greater", and its
  degenerate result, not a finite number, makes the run exit with that error and report
  nothing.
\<close>

theorem analyseResults_NaN_guard:
  assumes "oldSet \<noteq> []" and "newSet \<noteq> []"
    and "\<forall>a b alt. ttest a b alt = NaN \<or> (\<exists>p. ttest a b alt = Fin p \<and> 0 \<le> p \<and> p \<le> 1)"
  shows "(\<exists>r. analyseResults ttest str opts oldSet newSet = Inr r
            \<and> (\<not> isFinite (run_pValue r) \<longrightarrow>
                 run_exit r = Some (- 1) \<and> run_stderr r = [''Error: p-value is NaN.'']
                 \<and> run_stdout r = [])
            \<and> (isFinite (run_pValue r) \<longrightarrow> run_exit r = None \<and> run_stderr r = []))
     \<and> (\<not> isFinite (ttest [Fin 100, Fin 100, Fin 100, Fin 100, Fin 100]
                        [Fin 80, Fin 80, Fin 80, Fin 80, Fin 80] Greater) \<longrightarrow>
          analyseResults ttest str opts [Fin 100, Fin 100, Fin 100, Fin 100, Fin 100]
              [Fin 80, Fin 80, Fin 80, Fin 80, Fin 80]
            = Inr \<lparr>run_direction = 1, run_pValue = NaN, run_test = Some Greater,
                   run_stdout = [], run_stderr = [''Error: p-value is NaN.''],
                   run_exit = Some (- 1)\<rparr>)"
proof -
  have range: "isFinite (ttest a b alt) \<longleftrightarrow> \<not> isNaN (ttest a b alt)" for a b alt
  proof -
    from assms(3) have "ttest a b alt = NaN \<or> (\<exists>p. ttest a b alt = Fin p)" by blast
    then show ?thesis by auto
  qed
  obtain oldMean where mo: "calculateMean oldSet = Inr oldMean"
    using calculateMean_nonempty [OF assms(1)] by blast
  obtain newMean where mn: "calculateMean newSet = Inr newMean"
    using calculateMean_nonempty [OF assms(2)] by blast
  from analyseResults_verdict [OF mo mn, of ttest str opts]
  obtain r where r: "analyseResults ttest str opts oldSet newSet = Inr r"
    and p: "run_pValue r =
         (if js_lt oldMean newMean then ttest oldSet newSet Less
          else if js_gt oldMean newMean then ttest oldSet newSet Greater
          else Fin 0)"
    by blast
  have fin: "isFinite (run_pValue r) \<longleftrightarrow> \<not> isNaN (run_pValue r)"
    using p range by simp
  from analyseResults_abort [OF mo mn, of ttest str opts] r
  have ab: "if isNaN (run_pValue r)
         then run_exit r = Some (- 1) \<and> run_stderr r = [''Error: p-value is NaN.'']
              \<and> run_stdout r = []
         else run_exit r = None \<and> run_stderr r = []"
    by simp
  have general: "\<exists>r. analyseResults ttest str opts oldSet newSet = Inr r
            \<and> (\<not> isFinite (run_pValue r) \<longrightarrow>
                 run_exit r = Some (- 1) \<and> run_stderr r = [''Error: p-value is NaN.'']
                 \<and> run_stdout r = [])
            \<and> (isFinite (run_pValue r) \<longrightarrow> run_exit r = None \<and> run_stderr r = [])"
    using r fin ab by (auto split: if_splits)
  have m100: "calculateMean [Fin 100, Fin 100, Fin 100, Fin 100, Fin 100] = Inr (Fin 100)"
    by (simp add: calculateMean_def rnd_eval)
  have m80: "calculateMean [Fin 80, Fin 80, Fin 80, Fin 80, Fin 80] = Inr (Fin 80)"
    by (simp add: calculateMean_def rnd_eval)
  have scenario: "\<not> isFinite (ttest [Fin 100, Fin 100, Fin 100, Fin 100, Fin 100]
                        [Fin 80, Fin 80, Fin 80, Fin 80, Fin 80] Greater) \<longrightarrow>
          analyseResults ttest str opts [Fin 100, Fin 100, Fin 100, Fin 100, Fin 100]
              [Fin 80, Fin 80, Fin 80, Fin 80, Fin 80]
            = Inr \<lparr>run_direction = 1, run_pValue = NaN, run_test = Some Greater,
                   run_stdout = [], run_stderr = [''Error: p-value is NaN.''],
                   run_exit = Some (- 1)\<rparr>"
  proof
    assume "\<not> isFinite (ttest [Fin 100, Fin 100, Fin 100, Fin 100, Fin 100]
                        [Fin 80, Fin 80, Fin 80, Fin 80, Fin 80] Greater)"
    with range have "isNaN (ttest [Fin 100, Fin 100, Fin 100, Fin 100, Fin 100]
                        [Fin 80, Fin 80, Fin 80, Fin 80, Fin 80] Greater)" by simp
    then have "ttest [Fin 100, Fin 100, Fin 100, Fin 100, Fin 100]
                        [Fin 80, Fin 80, Fin 80, Fin 80, Fin 80] Greater = NaN"
      by (cases "ttest [Fin 100, Fin 100, Fin 100, Fin 100, Fin 100]
                        [Fin 80, Fin 80, Fin 80, Fin 80, Fin 80] Greater") simp_all
    then show "analyseResults ttest str opts [Fin 100, Fin 100, Fin 100, Fin 100, Fin 100]
              [Fin 80, Fin 80, Fin 80, Fin 80, Fin 80]
            = Inr \<lparr>run_direction = 1, run_pValue = NaN, run_test = Some Greater,
                   run_stdout = [], run_stderr = [''Error: p-value is NaN.''],
                   run_exit = Some (- 1)\<rparr>"
      by (simp add: analyseResults_def m100 m80 js_gt_def)
  qed
  from general scenario show ?thesis by blast
qed

theorem analyseResults_NaN_guard_witness:
  "analyseResults (\<lambda>a b alt. NaN) (\<lambda>x. []) None
       [Fin 100, Fin 100, Fin 100, Fin 100, Fin 100] [Fin 80, Fin 80, Fin 80, Fin 80, Fin 80]
     = Inr \<lparr>run_direction = 1, run_pValue = NaN, run_test = Some Greater,
            run_stdout = [], run_stderr = [''Error: p-value is NaN.''],
            run_exit = Some (- 1)\<rparr>
   \<and> (\<exists>r. analyseResults (\<lambda>a b alt. Fin (1 / 100)) (\<lambda>x. []) None [Fin 3] [Fin 1, Fin 2] = Inr r
        \<and> run_exit r = None \<and> run_stderr r = [])"
proof (intro conjI)
  show "analyseResults (\<lambda>a b alt. NaN) (\<lambda>x. []) None
       [Fin 100, Fin 100, Fin 100, Fin 100, Fin 100] [Fin 80, Fin 80, Fin 80, Fin 80, Fin 80]
     = Inr \<lparr>run_direction = 1, run_pValue = NaN, run_test = Some Greater,
            run_stdout = [], run_stderr = [''Error: p-value is NaN.''],
            run_exit = Some (- 1)\<rparr>"
    using analyseResults_NaN_guard [of "[Fin 100, Fin 100, Fin 100, Fin 100, Fin 100]"
        "[Fin 80, Fin 80, Fin 80, Fin 80, Fin 80]" "\<lambda>a b alt. NaN" "\<lambda>x. []" None]
    by simp
  show "\<exists>r. analyseResults (\<lambda>a b alt. Fin (1 / 100)) (\<lambda>x. []) None [Fin 3] [Fin 1, Fin 2] = Inr r
        \<and> run_exit r = None \<and> run_stderr r = []"
    using analyseResults_NaN_guard [of "[Fin 3]" "[Fin 1, Fin 2]" "\<lambda>a b alt. Fin (1 / 100)"
        "\<lambda>x. []" None]
    by (simp add: analyseResults_def calculateMean_def js_gt_def rnd_eval)
qed

text \<open>
  Claim C4. When the two means that \<open>calculateMean\<close> returns are equal, the test is not
  called, the p-value is 0, the direction is 0, and all that is printed, whatever the
  verbose option, is the one line saying that there appears to be no significant
  difference: no direction and no percentage.
\<close>

theorem analyseResults_equal_means:
  assumes "calculateMean oldSet = Inr oldMean" and "calculateMean newSet = Inr newMean"
    and "js_eq oldMean newMean"
  shows "analyseResults ttest str opts oldSet newSet
     = Inr \<lparr>run_direction = 0, run_pValue = Fin 0, run_test = None,
            run_stdout =
              [''There appears to be no significant difference between both versions.''],
            run_stderr = [], run_exit = None\<rparr>"
proof -
  from assms(3) have "oldMean \<noteq> NaN" and "newMean \<noteq> NaN" by (simp_all add: js_eq_def)
  with assms(3) have "\<not> js_lt oldMean newMean \<and> \<not> js_gt oldMean newMean"
    by (simp add: js_eq_iff_neither_less)
  with assms(1,2) show ?thesis by (simp add: analyseResults_def)
qed

theorem analyseResults_equal_means_witness:
  "analyseResults (\<lambda>a b alt. Fin (1 / 1000)) (\<lambda>x. ''n'') (Some \<lparr>opt_verbose = True\<rparr>)
       [Fin 1, Fin 3] [Fin 2]
     = Inr \<lparr>run_direction = 0, run_pValue = Fin 0, run_test = None,
            run_stdout =
              [''There appears to be no significant difference between both versions.''],
            run_stderr = [], run_exit = None\<rparr>"
  using analyseResults_equal_means [of "[Fin 1, Fin 3]" "Fin 2" "[Fin 2]" "Fin 2"
      "\<lambda>a b alt. Fin (1 / 1000)" "\<lambda>x. ''n''" "Some \<lparr>opt_verbose = True\<rparr>"]
  by (simp add: calculateMean_def rnd_eval js_eq_def)



text \<open>
  Swapping the two arguments, when the means are distinct, negates the direction, and the
  p-value of the swapped run is the test's on the swapped sets with the other alternative.
\<close>

lemma analyseResults_swap_direction:
  assumes "calculateMean oldSet = Inr oldMean" and "calculateMean newSet = Inr newMean"
    and "js_lt oldMean newMean \<or> js_gt oldMean newMean"
  shows "\<exists>r r'. analyseResults ttest str opts oldSet newSet = Inr r
     \<and> analyseResults ttest str opts newSet oldSet = Inr r'
     \<and> run_direction r \<noteq> 0
     \<and> run_direction r' = - run_direction r
     \<and> run_pValue r = ttest oldSet newSet (if js_lt oldMean newMean then Less else Greater)
     \<and> run_pValue r' = ttest newSet oldSet (if js_lt oldMean newMean then Greater else Less)"
proof -
  have excl: "\<not> (js_lt oldMean newMean \<and> js_gt oldMean newMean)"
    using js_lt_not_gt by blast
  from analyseResults_verdict [OF assms(1,2), of ttest str opts]
    analyseResults_verdict [OF assms(2,1), of ttest str opts]
  show ?thesis using assms(3) excl by (auto simp add: js_gt_def)
qed

text \<open>
  Claim C10. On two non-empty arrays, the run under any options is the run with the verbose
  option off, except that, when verbose printing is on, the direction is not 0 and the run
  did not exit, the hypothesis line and the significance line come before the lines of the
  quiet run. So direction, p-value, rating, exit and the final lines do not depend on the
  options, and with direction 0 nothing is added.
\<close>

theorem analyseResults_verbose_only:
  assumes "oldSet \<noteq> []" and "newSet \<noteq> []"
  shows "\<exists>q. analyseResults ttest str (Some \<lparr>opt_verbose = False\<rparr>) oldSet newSet = Inr q
     \<and> analyseResults ttest str opts oldSet newSet
        = Inr (q\<lparr>run_stdout :=
            (if (case opts of None \<Rightarrow> True | Some opt \<Rightarrow> opt_verbose opt)
                \<and> run_direction q \<noteq> 0 \<and> run_exit q = None
             then [''Active hypothesis: new version is '' @
                     (if run_direction q = 1 then ''FASTER'' else ''SLOWER'') @
                     '' than old version.'',
                   ''Statistical significance: '' @ ratePValue (run_pValue q) @
                     '' (p-value = '' @ str (run_pValue q) @ '').'' @ [CHR 0x0A]]
             else []) @ run_stdout q\<rparr>)"
proof -
  obtain a as b bs where "oldSet = a # as" "newSet = b # bs"
    using assms by (meson list.exhaust)
  then show ?thesis
    by (simp add: analyseResults_def calculateMean_def verbose_def Let_def)
qed

theorem analyseResults_verbose_only_witness:
  "\<exists>q. analyseResults (\<lambda>a b alt. Fin (3 / 100)) (\<lambda>x. ''p'') (Some \<lparr>opt_verbose = False\<rparr>)
          [Fin 3] [Fin 1, Fin 2] = Inr q
     \<and> run_stdout q = [''The new version appears to be FASTER than the old version.'',
          ''The new version appears to be p% faster (takes p% of the time of the old version).'']
     \<and> analyseResults (\<lambda>a b alt. Fin (3 / 100)) (\<lambda>x. ''p'') (Some \<lparr>opt_verbose = True\<rparr>)
          [Fin 3] [Fin 1, Fin 2]
        = Inr (q\<lparr>run_stdout :=
            [''Active hypothesis: new version is FASTER than old version.'',
             ''Statistical significance: Significant (p-value = p).'' @ [CHR 0x0A],
             ''The new version appears to be FASTER than the old version.'',
             ''The new version appears to be p% faster (takes p% of the time of the old version).'']\<rparr>)"
  using analyseResults_verbose_only [of "[Fin 3]" "[Fin 1, Fin 2]" "\<lambda>a b alt. Fin (3 / 100)"
      "\<lambda>x. ''p''" "Some \<lparr>opt_verbose = True\<rparr>"]
  by (simp add: analyseResults_def calculateMean_def verbose_def js_gt_def BASE_SIGNIFICANCE_def
      ratePValue_def rnd_eval)

end
